theory Spec2Isabelle
  imports Main
begin

section \<open>Expressions and assumption expressions\<close>

text \<open>
  The objects that predicates are asked about: symbols, integer literals and compound
  expressions (a head name applied to operands, such as a product).
\<close>

datatype obj = Symbol string | Integer int | Apply string "obj list"

text \<open>
  Boolean expressions of \<^verbatim>\<open>sympy.logic.boolalg\<close> over predicates. \<open>BTrue\<close> and
  \<open>BFalse\<close> are Python's \<^verbatim>\<open>True\<close> and \<^verbatim>\<open>False\<close>; \<open>Predicate\<close> is a bare
  predicate key (\<^verbatim>\<open>Q.even\<close>), \<open>AppliedPredicate\<close> a predicate applied to an object
  (\<^verbatim>\<open>Q.even(x)\<close>). The remaining constructors are the nodes of the connective classes;
  the callables that build them (and simplify while doing so) are the functions
  \<open>And\<close>, \<open>Or\<close>, \<open>Not_b\<close>, \<open>Implies\<close> and \<open>Equivalent\<close> below.
\<close>

datatype boolean =
    BTrue
  | BFalse
  | Predicate string
  | AppliedPredicate string obj
  | NotN boolean
  | AndN "boolean list"
  | OrN "boolean list"
  | ImpliesN boolean boolean
  | EquivalentN "boolean list"

text \<open>What \<^verbatim>\<open>sympify\<close> hands to the resolver: an object or a boolean expression.\<close>

datatype target = Obj obj | Prop boolean

text \<open>
  The exceptions of the model: an attribute asked of a Python boolean, a key
  missing from a dictionary, a constructor called with too few operands (in Python
  a \<^verbatim>\<open>TypeError\<close>, \<^verbatim>\<open>ValueError\<close> or \<^verbatim>\<open>IndexError\<close>, as the constructor has it),
  and whatever a handler raises.
\<close>

datatype error = AttributeError | KeyError | ArityError | HandlerError

subsection \<open>Structural containment\<close>

text \<open>
  Modelled from the spec: \<^verbatim>\<open>has(subobject)\<close> of the expression model
  (\<^verbatim>\<open>sympy.core\<close>, not among the sources), "does this object structurally contain
  that subobject": a node contains itself and whatever its operands contain.
\<close>

fun contains :: "obj \<Rightarrow> obj \<Rightarrow> bool" where
  "contains (Apply f xs) s = (Apply f xs = s \<or> (\<exists>x\<in>set xs. contains x s))"
| "contains (Symbol n) s = (Symbol n = s)"
| "contains (Integer i) s = (Integer i = s)"

fun has :: "boolean \<Rightarrow> target \<Rightarrow> bool" where
  "has (AppliedPredicate p a) s =
     (Prop (AppliedPredicate p a) = s \<or> (case s of Obj b \<Rightarrow> contains a b | Prop _ \<Rightarrow> False))"
| "has (NotN a) s = (Prop (NotN a) = s \<or> has a s)"
| "has (AndN xs) s = (Prop (AndN xs) = s \<or> (\<exists>x\<in>set xs. has x s))"
| "has (OrN xs) s = (Prop (OrN xs) = s \<or> (\<exists>x\<in>set xs. has x s))"
| "has (ImpliesN a b) s = (Prop (ImpliesN a b) = s \<or> has a s \<or> has b s)"
| "has (EquivalentN xs) s = (Prop (EquivalentN xs) = s \<or> (\<exists>x\<in>set xs. has x s))"
| "has (Predicate p) s = (Prop (Predicate p) = s)"
| "has BTrue s = (Prop BTrue = s)"
| "has BFalse s = (Prop BFalse = s)"

subsection \<open>The connective constructors\<close>

text \<open>
  Modelled from the spec: the boolean-combinator constructors of the logic
  collaborator (\<^verbatim>\<open>sympy.logic.boolalg\<close>, not among the sources). \<^verbatim>\<open>And\<close> and
  \<^verbatim>\<open>Or\<close> are n-ary and flatten, so that the operands of a conjunction are a flat
  ordered sequence; a conjunction of nothing is the constant "no assumptions"
  (\<open>BTrue\<close>), the neutral constant is dropped, the absorbing one wins, and a single
  remaining operand is returned as it is.
\<close>

definition And :: "boolean list \<Rightarrow> boolean" where
  "And args =
     (let flat = concat (map (\<lambda>a. case a of AndN xs \<Rightarrow> xs | _ \<Rightarrow> [a]) args);
          rest = filter (\<lambda>a. a \<noteq> BTrue) flat
      in if BFalse \<in> set rest then BFalse
         else case rest of [] \<Rightarrow> BTrue | [x] \<Rightarrow> x | _ \<Rightarrow> AndN rest)"

definition Or :: "boolean list \<Rightarrow> boolean" where
  "Or args =
     (let flat = concat (map (\<lambda>a. case a of OrN xs \<Rightarrow> xs | _ \<Rightarrow> [a]) args);
          rest = filter (\<lambda>a. a \<noteq> BFalse) flat
      in if BTrue \<in> set rest then BTrue
         else case rest of [] \<Rightarrow> BFalse | [x] \<Rightarrow> x | _ \<Rightarrow> OrN rest)"

text \<open>
  Modelled from the spec: negation (\<^verbatim>\<open>sympy.logic.boolalg.Not\<close>, not among the
  sources). Constants are negated, a double negation is removed, anything else is
  wrapped in a negation node.
\<close>

fun Not_b :: "boolean \<Rightarrow> boolean" where
  "Not_b BTrue = BFalse"
| "Not_b BFalse = BTrue"
| "Not_b (NotN a) = a"
| "Not_b a = NotN a"

text \<open>
  Modelled from the spec: implication and equivalence
  (\<^verbatim>\<open>sympy.logic.boolalg.Implies\<close> and \<^verbatim>\<open>Equivalent\<close>, not among the sources).
  Implication takes exactly two operands; equivalence of at most one distinct
  operand is trivially true.
\<close>

definition Implies :: "boolean list \<Rightarrow> error + boolean" where
  "Implies args = (case args of [a, b] \<Rightarrow> Inr (ImpliesN a b) | _ \<Rightarrow> Inl ArityError)"

definition Equivalent :: "boolean list \<Rightarrow> boolean" where
  "Equivalent args = (if length (remdups args) \<le> 1 then BTrue else EquivalentN args)"

subsection \<open>Truth under a valuation, and satisfiability\<close>

text \<open>
  A valuation gives a truth value to the atoms (bare and applied predicates).
\<close>

fun eval_bool :: "(boolean \<Rightarrow> bool) \<Rightarrow> boolean \<Rightarrow> bool" where
  "eval_bool v BTrue = True"
| "eval_bool v BFalse = False"
| "eval_bool v (Predicate p) = v (Predicate p)"
| "eval_bool v (AppliedPredicate p a) = v (AppliedPredicate p a)"
| "eval_bool v (NotN a) = (\<not> eval_bool v a)"
| "eval_bool v (AndN xs) = list_all (eval_bool v) xs"
| "eval_bool v (OrN xs) = list_ex (eval_bool v) xs"
| "eval_bool v (ImpliesN a b) = (eval_bool v a \<longrightarrow> eval_bool v b)"
| "eval_bool v (EquivalentN xs) =
     (list_all (eval_bool v) xs \<or> list_all (\<lambda>x. \<not> eval_bool v x) xs)"

fun atoms :: "boolean \<Rightarrow> boolean list" where
  "atoms BTrue = []"
| "atoms BFalse = []"
| "atoms (Predicate p) = [Predicate p]"
| "atoms (AppliedPredicate p a) = [AppliedPredicate p a]"
| "atoms (NotN a) = atoms a"
| "atoms (AndN xs) = concat (map atoms xs)"
| "atoms (OrN xs) = concat (map atoms xs)"
| "atoms (ImpliesN a b) = atoms a @ atoms b"
| "atoms (EquivalentN xs) = concat (map atoms xs)"

text \<open>
  Modelled from the spec: the satisfiability collaborator
  (\<^verbatim>\<open>sympy.logic.inference.satisfiable\<close>, not among the sources), used only for its
  truthy or falsy outcome and assumed sound and complete for propositional logic.
  The model tries every assignment of the atoms that occur in the expression.
\<close>

definition satisfiable :: "boolean \<Rightarrow> bool" where
  "satisfiable f = list_ex (\<lambda>ts. eval_bool (\<lambda>a. a \<in> set ts) f) (subseqs (atoms f))"

section \<open>The SAT-inference adapter\<close>

text \<open>
  \<^verbatim>\<open>ask_full_inference(proposition, assumptions, known_facts_cnf)\<close>. The
  satisfiability check is the first argument.
\<close>

definition ask_full_inference ::
  "(boolean \<Rightarrow> bool) \<Rightarrow> boolean \<Rightarrow> boolean \<Rightarrow> boolean \<Rightarrow> bool option" where
  "ask_full_inference sat proposition assumptions known_facts_cnf =
     (if \<not> sat (And [known_facts_cnf, assumptions, proposition]) then Some False
      else if \<not> sat (And [known_facts_cnf, assumptions, Not_b proposition]) then Some True
      else None)"

section \<open>The knowledge compiler\<close>

text \<open>
  \<^verbatim>\<open>single_fact_lookup(known_facts_keys, known_facts_cnf)\<close>: for every key the
  entry starts as the set holding the key alone; every other key for which full
  inference from the key answers a truthy value (that is, True) is added. The keys
  are predicates, given by name. The inner loop only ever touches the entry of the
  current key, so the model computes that entry and stores it.
\<close>

definition single_fact_lookup ::
  "(boolean \<Rightarrow> bool) \<Rightarrow> string list \<Rightarrow> boolean \<Rightarrow> (boolean \<rightharpoonup> boolean set)" where
  "single_fact_lookup sat known_facts_keys known_facts_cnf =
     foldl (\<lambda>mapping key.
        mapping(Predicate key \<mapsto>
          foldl (\<lambda>entry other_key.
                   if other_key \<noteq> key \<and>
                      ask_full_inference sat (Predicate other_key) (Predicate key)
                        known_facts_cnf = Some True
                   then insert (Predicate other_key) entry else entry)
                {Predicate key} known_facts_keys))
       Map.empty known_facts_keys"

text \<open>The operands of a node (\<^verbatim>\<open>.args\<close>); Python's booleans have none to ask for.\<close>

fun args :: "boolean \<Rightarrow> error + target list" where
  "args BTrue = Inl AttributeError"
| "args BFalse = Inl AttributeError"
| "args (Predicate p) = Inr []"
| "args (AppliedPredicate p a) = Inr [Obj a]"
| "args (NotN a) = Inr [Prop a]"
| "args (AndN xs) = Inr (map Prop xs)"
| "args (OrN xs) = Inr (map Prop xs)"
| "args (ImpliesN a b) = Inr [Prop a, Prop b]"
| "args (EquivalentN xs) = Inr (map Prop xs)"

text \<open>
  \<^verbatim>\<open>compute_known_facts(known_facts, known_facts_keys)\<close>. The source returns the text
  of a module listing the operands of the CNF and the items of the closure map; the
  model returns these two values and leaves the rendering as text out. The CNF
  conversion \<^verbatim>\<open>to_cnf\<close> of the logic collaborator and the satisfiability check
  are arguments.
\<close>

definition compute_known_facts ::
  "(boolean \<Rightarrow> boolean) \<Rightarrow> (boolean \<Rightarrow> bool) \<Rightarrow> boolean \<Rightarrow> string list
     \<Rightarrow> error + (target list \<times> (boolean \<rightharpoonup> boolean set))" where
  "compute_known_facts to_cnf sat known_facts known_facts_keys =
     (let cnf = to_cnf known_facts
      in case args cnf of
           Inl e \<Rightarrow> Inl e
         | Inr c \<Rightarrow> Inr (c, single_fact_lookup sat known_facts_keys cnf))"

section \<open>The query resolver\<close>

text \<open>Results of a list comprehension whose elements may raise: the first error wins.\<close>

primrec collect :: "(error + 'a) list \<Rightarrow> error + 'a list" where
  "collect [] = Inr []"
| "collect (r # rs) =
     (case r of
        Inl e \<Rightarrow> Inl e
      | Inr x \<Rightarrow> (case collect rs of Inl e \<Rightarrow> Inl e | Inr xs \<Rightarrow> Inr (x # xs)))"

text \<open>
  \<^verbatim>\<open>_extract_facts(expr, symbol)\<close>. Python's booleans have no \<^verbatim>\<open>has\<close>; an applied
  predicate that mentions the symbol becomes its bare key; any other node is rebuilt
  by its own constructor from the operands that yielded something. A constructor
  called with too few operands raises (\<open>ArityError\<close>).
\<close>

fun extract_facts :: "boolean \<Rightarrow> target \<Rightarrow> error + boolean option" where
  "extract_facts BTrue symbol = Inl AttributeError"
| "extract_facts BFalse symbol = Inl AttributeError"
| "extract_facts (AppliedPredicate p a) symbol =
     (if \<not> has (AppliedPredicate p a) symbol then Inr None else Inr (Some (Predicate p)))"
| "extract_facts (Predicate p) symbol =
     (if \<not> has (Predicate p) symbol then Inr None else Inl ArityError)"
| "extract_facts (NotN a) symbol =
     (if \<not> has (NotN a) symbol then Inr None
      else case extract_facts a symbol of
             Inl e \<Rightarrow> Inl e
           | Inr None \<Rightarrow> Inl ArityError
           | Inr (Some x) \<Rightarrow> Inr (Some (Not_b x)))"
| "extract_facts (AndN xs) symbol =
     (if \<not> has (AndN xs) symbol then Inr None
      else case collect (map (\<lambda>arg. extract_facts arg symbol) xs) of
             Inl e \<Rightarrow> Inl e
           | Inr rs \<Rightarrow> Inr (Some (And (List.map_filter (\<lambda>x. x) rs))))"
| "extract_facts (OrN xs) symbol =
     (if \<not> has (OrN xs) symbol then Inr None
      else case collect (map (\<lambda>arg. extract_facts arg symbol) xs) of
             Inl e \<Rightarrow> Inl e
           | Inr rs \<Rightarrow> Inr (Some (Or (List.map_filter (\<lambda>x. x) rs))))"
| "extract_facts (ImpliesN a b) symbol =
     (if \<not> has (ImpliesN a b) symbol then Inr None
      else case collect [extract_facts a symbol, extract_facts b symbol] of
             Inl e \<Rightarrow> Inl e
           | Inr rs \<Rightarrow> map_sum (\<lambda>e. e) Some (Implies (List.map_filter (\<lambda>x. x) rs)))"
| "extract_facts (EquivalentN xs) symbol =
     (if \<not> has (EquivalentN xs) symbol then Inr None
      else case collect (map (\<lambda>arg. extract_facts arg symbol) xs) of
             Inl e \<Rightarrow> Inl e
           | Inr rs \<Rightarrow> Inr (Some (Equivalent (List.map_filter (\<lambda>x. x) rs))))"

text \<open>\<^verbatim>\<open>is_Atom\<close>: true of bare and applied predicates; Python's booleans lack it.\<close>

fun is_Atom :: "boolean \<Rightarrow> error + bool" where
  "is_Atom BTrue = Inl AttributeError"
| "is_Atom BFalse = Inl AttributeError"
| "is_Atom (Predicate p) = Inr True"
| "is_Atom (AppliedPredicate p a) = Inr True"
| "is_Atom _ = Inr False"

text \<open>
  The loop of \<^verbatim>\<open>ask\<close> over the conjuncts of the local facts. It runs only after
  every conjunct was found to be a key of the closure map; the lookup is written
  with its failure all the same.
\<close>

fun ask_conjuncts ::
  "(boolean \<rightharpoonup> boolean set) \<Rightarrow> boolean \<Rightarrow> boolean list \<Rightarrow> error + bool option" where
  "ask_conjuncts known_facts_dict key [] = Inr None"
| "ask_conjuncts known_facts_dict key (assum # rest) =
     (case is_Atom assum of
        Inl e \<Rightarrow> Inl e
      | Inr True \<Rightarrow>
          (case known_facts_dict assum of
             None \<Rightarrow> Inl KeyError
           | Some entry \<Rightarrow>
               if key \<in> entry then Inr (Some True)
               else if Not_b key \<in> entry then Inr (Some False)
               else ask_conjuncts known_facts_dict key rest)
      | Inr False \<Rightarrow>
          (case assum of
             NotN a \<Rightarrow>
               (case is_Atom a of
                  Inl e \<Rightarrow> Inl e
                | Inr True \<Rightarrow>
                    (case known_facts_dict assum of
                       None \<Rightarrow> Inl KeyError
                     | Some entry \<Rightarrow>
                         if key \<in> entry then Inr (Some False)
                         else if Not_b key \<in> entry then Inr (Some True)
                         else ask_conjuncts known_facts_dict key rest)
                | Inr False \<Rightarrow> ask_conjuncts known_facts_dict key rest)
           | _ \<Rightarrow> ask_conjuncts known_facts_dict key rest))"

text \<open>
  The closure-map tier of \<^verbatim>\<open>ask\<close> (the \<^verbatim>\<open>if\<close>/\<^verbatim>\<open>elif\<close> chain on the shape of
  the local facts). \<open>Inr None\<close> means that no branch returned, so that \<^verbatim>\<open>ask\<close>
  goes on to full inference.
\<close>

definition ask_lookup ::
  "(boolean \<rightharpoonup> boolean set) \<Rightarrow> boolean \<Rightarrow> boolean \<Rightarrow> error + bool option" where
  "ask_lookup known_facts_dict key local_facts =
     (case is_Atom local_facts of
        Inl e \<Rightarrow> Inl e
      | Inr True \<Rightarrow>
          (case known_facts_dict local_facts of
             None \<Rightarrow> Inl KeyError
           | Some entry \<Rightarrow>
               if key \<in> entry then Inr (Some True)
               else if Not_b key \<in> entry then Inr (Some False)
               else Inr None)
      | Inr False \<Rightarrow>
          (case local_facts of
             AndN conjuncts \<Rightarrow>
               if list_all (\<lambda>k. known_facts_dict k \<noteq> None) conjuncts
               then ask_conjuncts known_facts_dict key conjuncts
               else Inr None
           | NotN a \<Rightarrow>
               (case is_Atom a of
                  Inl e \<Rightarrow> Inl e
                | Inr True \<Rightarrow>
                    (case known_facts_dict key of
                       None \<Rightarrow> Inl KeyError
                     | Some entry \<Rightarrow> if a \<in> entry then Inr (Some False) else Inr None)
                | Inr False \<Rightarrow> Inr None)
           | _ \<Rightarrow> Inr None))"

text \<open>
  The key and the target of a query: an applied predicate is split into its
  predicate and its (sympified) argument; any other proposition is asked of the
  predicate \<^verbatim>\<open>Q.is_true\<close>. \<^verbatim>\<open>sympify\<close> leaves expression objects as they are.
\<close>

definition key_expr :: "boolean \<Rightarrow> string \<times> target" where
  "key_expr proposition =
     (case proposition of
        AppliedPredicate p a \<Rightarrow> (p, Obj a)
      | _ \<Rightarrow> (''is_true'', Prop proposition))"

text \<open>
  \<^verbatim>\<open>ask(proposition, assumptions, context)\<close>. The satisfiability check, the direct
  evaluation by the handlers of a key (\<^verbatim>\<open>key(expr)._eval_ask(assumptions)\<close>, which
  may answer, have no opinion or raise) and the compiled knowledge base
  (\<^verbatim>\<open>known_facts_dict\<close>, \<^verbatim>\<open>known_facts_cnf\<close>) are arguments; \<open>context\<close> lists the
  global assumptions.
\<close>

definition ask ::
  "(boolean \<Rightarrow> bool) \<Rightarrow> (string \<Rightarrow> target \<Rightarrow> boolean \<Rightarrow> error + bool option)
     \<Rightarrow> (boolean \<rightharpoonup> boolean set) \<Rightarrow> boolean
     \<Rightarrow> boolean list \<Rightarrow> boolean \<Rightarrow> boolean \<Rightarrow> error + bool option" where
  "ask sat eval_ask known_facts_dict known_facts_cnf context proposition assumptions =
     (let assumptions = And [assumptions, And context];
          (key, expr) = key_expr proposition
      in case eval_ask key expr assumptions of
           Inl e \<Rightarrow> Inl e
         | Inr (Some res) \<Rightarrow> Inr (Some res)
         | Inr None \<Rightarrow>
             if assumptions = BTrue then Inr None
             else case extract_facts assumptions expr of
                    Inl e \<Rightarrow> Inl e
                  | Inr None \<Rightarrow> Inr None
                  | Inr (Some local_facts) \<Rightarrow>
                      if local_facts = BTrue then Inr None
                      else case ask_lookup known_facts_dict (Predicate key) local_facts of
                             Inl e \<Rightarrow> Inl e
                           | Inr (Some res) \<Rightarrow> Inr (Some res)
                           | Inr None \<Rightarrow>
                               Inr (ask_full_inference sat (Predicate key) local_facts
                                      known_facts_cnf))"

text \<open>
  The entry \<open>closureMap[a]\<close> as a set, for stating what the closure-map tier does;
  a key without an entry has no members to offer.
\<close>

definition entry_of :: "(boolean \<rightharpoonup> boolean set) \<Rightarrow> boolean \<Rightarrow> boolean set" where
  "entry_of known_facts_dict a = (case known_facts_dict a of None \<Rightarrow> {} | Some entry \<Rightarrow> entry)"

section \<open>Rewrite rules\<close>

text \<open>
  \<^verbatim>\<open>rewriterule(p1, p2)\<close> returns a generator function. Unification, substitution,
  rebuilding and the test for \<^verbatim>\<open>Expr\<close> belong to other modules and are arguments;
  the matches that \<^verbatim>\<open>unify\<close> generates are a list, and so are the expressions that
  the rule yields, in the order in which they are yielded.
\<close>

fun rewrite_rl ::
  "('m \<Rightarrow> 'e \<Rightarrow> 'e) \<Rightarrow> ('e \<Rightarrow> bool) \<Rightarrow> ('e \<Rightarrow> 'e) \<Rightarrow> 'e \<Rightarrow> 'm list \<Rightarrow> 'e list" where
  "rewrite_rl subs is_Expr rebuild p2 [] = []"
| "rewrite_rl subs is_Expr rebuild p2 (match # rest) =
     (let expr2 = subs match p2;
          expr2 = (if is_Expr expr2 then rebuild expr2 else expr2)
      in expr2 # rewrite_rl subs is_Expr rebuild p2 rest)"

definition rewriterule ::
  "('e \<Rightarrow> 'e \<Rightarrow> ('v \<rightharpoonup> 'e) \<Rightarrow> ('v \<rightharpoonup> 'e) list) \<Rightarrow> (('v \<rightharpoonup> 'e) \<Rightarrow> 'e \<Rightarrow> 'e)
     \<Rightarrow> ('e \<Rightarrow> bool) \<Rightarrow> ('e \<Rightarrow> 'e) \<Rightarrow> 'e \<Rightarrow> 'e \<Rightarrow> 'e \<Rightarrow> 'e list" where
  "rewriterule unify subs is_Expr rebuild p1 p2 =
     (\<lambda>expr. rewrite_rl subs is_Expr rebuild p2 (unify p1 expr Map.empty))"

section \<open>Sample knowledge for the examples\<close>

text \<open>
  Handlers that have no opinion on anything, and a small knowledge base: the axiom
  "integer implies rational" in CNF over three keys, with its compiled closure map.
\<close>

definition no_opinion :: "string \<Rightarrow> target \<Rightarrow> boolean \<Rightarrow> error + bool option" where
  "no_opinion key expr assumptions = Inr None"

definition sample_cnf :: boolean where
  "sample_cnf = OrN [NotN (Predicate ''integer''), Predicate ''rational'']"

definition sample_keys :: "string list" where
  "sample_keys = [''integer'', ''rational'', ''real'']"

definition sample_dict :: "boolean \<rightharpoonup> boolean set" where
  "sample_dict = single_fact_lookup satisfiable sample_keys sample_cnf"

text \<open>
  A handler in the manner of the spec's third scenario: it knows that \<open>pi\<close> is not
  rational and has no opinion on anything else.
\<close>

definition irrational_pi :: "string \<Rightarrow> target \<Rightarrow> boolean \<Rightarrow> error + bool option" where
  "irrational_pi key expr assumptions =
     (if key = ''rational'' \<and> expr = Obj (Symbol ''pi'') then Inr (Some False) else Inr None)"

text \<open>
  A closure map written by hand that has a negated key: the entry of "not rational"
  holds "not rational" and "not integer".
\<close>

definition sample_literal_dict :: "boolean \<rightharpoonup> boolean set" where
  "sample_literal_dict =
     [NotN (Predicate ''rational'') \<mapsto> {NotN (Predicate ''rational''), NotN (Predicate ''integer'')},
      Predicate ''real'' \<mapsto> {Predicate ''real''}]"

text \<open>
  Handlers in which the key \<^verbatim>\<open>is_true\<close> decides a negation by asking for its operand
  and negating a definitive answer, as the handler registered for \<^verbatim>\<open>is_true\<close> is
  meant to; every other key, and \<^verbatim>\<open>is_true\<close> on anything else, has no opinion.
\<close>

definition negating_handlers ::
  "(boolean \<Rightarrow> bool) \<Rightarrow> (boolean \<rightharpoonup> boolean set) \<Rightarrow> boolean \<Rightarrow> boolean list
     \<Rightarrow> string \<Rightarrow> target \<Rightarrow> boolean \<Rightarrow> error + bool option" where
  "negating_handlers sat known_facts_dict known_facts_cnf context key expr assumptions =
     (if key = ''is_true''
      then case expr of
             Prop (NotN operand) \<Rightarrow>
               map_sum (\<lambda>e. e) (map_option Not)
                 (ask sat no_opinion known_facts_dict known_facts_cnf context operand assumptions)
           | _ \<Rightarrow> Inr None
      else Inr None)"

text \<open>
  A contradictory axiom set ("a implies b", "a implies not b", "a"), and a conversion
  that replaces the implications among the operands of a conjunction by clauses,
  which brings such an axiom set into CNF.
\<close>

definition contradictory_axioms :: boolean where
  "contradictory_axioms =
     AndN [ImpliesN (Predicate ''a'') (Predicate ''b''),
           ImpliesN (Predicate ''a'') (NotN (Predicate ''b'')),
           Predicate ''a'']"

definition implications_to_clauses :: "boolean \<Rightarrow> boolean" where
  "implications_to_clauses f =
     (case f of
        AndN xs \<Rightarrow> AndN (map (\<lambda>x. case x of ImpliesN p q \<Rightarrow> OrN [Not_b p, q] | _ \<Rightarrow> x) xs)
      | _ \<Rightarrow> f)"

text \<open>
  A unifier for the examples of rewriting: a pattern that is a symbol matches any
  expression consistently with the bindings so far, any other pattern matches only
  itself; and the substitution that replaces a bound symbol.
\<close>

definition sample_unify :: "obj \<Rightarrow> obj \<Rightarrow> (string \<rightharpoonup> obj) \<Rightarrow> (string \<rightharpoonup> obj) list" where
  "sample_unify p e s =
     (case p of
        Symbol n \<Rightarrow> (case s n of
                       None \<Rightarrow> [s(n \<mapsto> e)]
                     | Some e' \<Rightarrow> if e' = e then [s] else [])
      | _ \<Rightarrow> if p = e then [s] else [])"

definition sample_subs :: "(string \<rightharpoonup> obj) \<Rightarrow> obj \<Rightarrow> obj" where
  "sample_subs m t =
     (case t of
        Symbol n \<Rightarrow> (case m n of Some e \<Rightarrow> e | None \<Rightarrow> t)
      | _ \<Rightarrow> t)"

definition sample_is_Expr :: "obj \<Rightarrow> bool" where
  "sample_is_Expr e = True"

definition sample_rebuild :: "obj \<Rightarrow> obj" where
  "sample_rebuild e = e"

section \<open>Properties\<close>

subsection \<open>Semantics of the constructors\<close>

lemma eval_bool_And: "eval_bool v (And conjs) = list_all (eval_bool v) conjs"
proof -
  let ?un = "\<lambda>a. case a of AndN xs \<Rightarrow> xs | _ \<Rightarrow> [a]"
  let ?flat = "concat (map ?un conjs)"
  let ?rest = "filter (\<lambda>a. a \<noteq> BTrue) ?flat"
  have un: "list_all (eval_bool v) (?un a) = eval_bool v a" for a
    by (cases a) simp_all
  have flat: "list_all (eval_bool v) ?flat = list_all (eval_bool v) conjs"
    by (induction conjs) (simp_all add: un)
  have rest: "list_all (eval_bool v) ?rest = list_all (eval_bool v) ?flat"
    by (auto simp: list_all_iff)
  have "eval_bool v (And conjs) = list_all (eval_bool v) ?rest"
  proof (cases "BFalse \<in> set ?rest")
    case True
    then have "\<not> list_all (eval_bool v) ?rest"
      unfolding list_all_iff using eval_bool.simps(2) by blast
    with True show ?thesis by (simp add: And_def Let_def)
  next
    case False
    have "eval_bool v (case ?rest of [] \<Rightarrow> BTrue | [x] \<Rightarrow> x | _ \<Rightarrow> AndN ?rest)
            = list_all (eval_bool v) ?rest"
      by (simp split: list.split)
    with False show ?thesis by (simp add: And_def Let_def)
  qed
  with rest flat show ?thesis by simp
qed

lemma eval_bool_Not_b: "eval_bool v (Not_b a) = (\<not> eval_bool v a)"
  by (cases a) simp_all

subsection \<open>The satisfiability model is sound and complete\<close>

lemma eval_bool_cong:
  "(\<And>a. a \<in> set (atoms f) \<Longrightarrow> v a = w a) \<Longrightarrow> eval_bool v f = eval_bool w f"
proof (induction f)
  case (AndN xs)
  then have "\<And>x. x \<in> set xs \<Longrightarrow> eval_bool v x = eval_bool w x" by auto
  then show ?case by (simp add: list_all_iff)
next
  case (OrN xs)
  then have "\<And>x. x \<in> set xs \<Longrightarrow> eval_bool v x = eval_bool w x" by auto
  then show ?case by (simp add: list_ex_iff)
next
  case (EquivalentN xs)
  then have "\<And>x. x \<in> set xs \<Longrightarrow> eval_bool v x = eval_bool w x" by auto
  then show ?case by (simp add: list_all_iff)
qed auto

lemma satisfiable_iff: "satisfiable f \<longleftrightarrow> (\<exists>v. eval_bool v f)"
proof
  assume "satisfiable f"
  then show "\<exists>v. eval_bool v f"
    by (auto simp: satisfiable_def list_ex_iff)
next
  assume "\<exists>v. eval_bool v f"
  then obtain v where v: "eval_bool v f" ..
  have "{a \<in> set (atoms f). v a} \<in> Pow (set (atoms f))" by blast
  then have "{a \<in> set (atoms f). v a} \<in> set ` set (subseqs (atoms f))"
    by (simp only: subseqs_powset)
  then obtain ts where ts: "ts \<in> set (subseqs (atoms f))"
    and eq: "set ts = {a \<in> set (atoms f). v a}" by auto
  have "eval_bool (\<lambda>a. a \<in> set ts) f = eval_bool v f"
    by (rule eval_bool_cong) (simp add: eq)
  with v ts show "satisfiable f"
    by (auto simp: satisfiable_def list_ex_iff)
qed

lemma satisfiable_And3:
  "satisfiable (And [k, a, p]) \<longleftrightarrow> (\<exists>v. eval_bool v k \<and> eval_bool v a \<and> eval_bool v p)"
  by (simp add: satisfiable_iff eval_bool_And)

subsection \<open>Full inference\<close>

lemma ask_full_inference_sem:
  "ask_full_inference satisfiable P A K =
     (if \<not> (\<exists>v. eval_bool v K \<and> eval_bool v A \<and> eval_bool v P) then Some False
      else if \<not> (\<exists>v. eval_bool v K \<and> eval_bool v A \<and> \<not> eval_bool v P) then Some True
      else None)"
proof -
  have pos: "satisfiable (And [K, A, P])
      \<longleftrightarrow> (\<exists>v. eval_bool v K \<and> eval_bool v A \<and> eval_bool v P)"
    by (rule satisfiable_And3)
  have neg: "satisfiable (And [K, A, Not_b P])
      \<longleftrightarrow> (\<exists>v. eval_bool v K \<and> eval_bool v A \<and> \<not> eval_bool v P)"
    by (simp only: satisfiable_And3 eval_bool_Not_b)
  show ?thesis
    by (simp only: ask_full_inference_def pos neg)
qed

text \<open>
  C1. With a sound and complete satisfiability check, \<open>ask_full_inference\<close> returns
  False when knowledge, assumptions and proposition have no common model; otherwise
  True when knowledge, assumptions and the negated proposition have none; otherwise
  Unknown (\<open>None\<close>). The function is total: these are its only results.
\<close>

theorem ask_full_inference_spec:
  "ask_full_inference satisfiable P A K =
     (if \<not> (\<exists>v. eval_bool v K \<and> eval_bool v A \<and> eval_bool v P) then Some False
      else if \<not> (\<exists>v. eval_bool v K \<and> eval_bool v A \<and> \<not> eval_bool v P) then Some True
      else None)"
  by (rule ask_full_inference_sem)

lemma inference_even_integer:
  "ask_full_inference satisfiable (Predicate ''integer'') (Predicate ''even'')
     (OrN [NotN (Predicate ''even''), Predicate ''integer'']) = Some True"
  by code_simp

theorem ask_full_inference_spec_witness:
  "(if \<not> (\<exists>v. eval_bool v (OrN [NotN (Predicate ''even''), Predicate ''integer''])
               \<and> eval_bool v (Predicate ''even'') \<and> eval_bool v (Predicate ''integer''))
    then Some False
    else if \<not> (\<exists>v. eval_bool v (OrN [NotN (Predicate ''even''), Predicate ''integer''])
                    \<and> eval_bool v (Predicate ''even'')
                    \<and> \<not> eval_bool v (Predicate ''integer''))
    then Some True
    else None) = Some True"
  by (rule trans [OF ask_full_inference_spec [symmetric] inference_even_integer])

subsection \<open>The closure map built by the compiler\<close>

lemma foldl_insert_if:
  "foldl (\<lambda>entry other_key. if P other_key then insert (f other_key) entry else entry) s ks
     = s \<union> {f k | k. k \<in> set ks \<and> P k}"
  by (induction ks arbitrary: s) auto

lemma foldl_upd_inj:
  "inj g \<Longrightarrow> foldl (\<lambda>mapping key. mapping(g key \<mapsto> h key)) m ks (g k) =
     (if k \<in> set ks then Some (h k) else m (g k))"
  by (induction ks arbitrary: m) (auto simp: inj_def)

lemma single_fact_lookup_entry:
  "single_fact_lookup sat keys cnf (Predicate k) =
     (if k \<in> set keys
      then Some ({Predicate k} \<union>
                 {Predicate k' | k'. k' \<in> set keys \<and> k' \<noteq> k \<and>
                    ask_full_inference sat (Predicate k') (Predicate k) cnf = Some True})
      else None)"
proof -
  have inj: "inj Predicate" by (simp add: inj_def)
  show ?thesis
    unfolding single_fact_lookup_def
    by (subst foldl_upd_inj [where g = Predicate, OF inj]) (simp add: foldl_insert_if)
qed

text \<open>
  C2 (as amended). Let \<open>entry\<close> be the closure-map entry that \<open>single_fact_lookup\<close>
  builds for a key \<open>a\<close>. Every key \<open>b\<close> in it other than \<open>a\<close> is one for which full
  inference from \<open>a\<close> returns True; for \<open>a\<close> itself, always a member, full inference
  returns True when the CNF has a model in which \<open>a\<close> holds and False when it has
  none. No negated key is ever a member.
\<close>

theorem closure_map_sound:
  assumes "single_fact_lookup satisfiable keys cnf (Predicate a) = Some entry"
  shows "(Predicate b \<in> entry \<and> (b \<noteq> a \<or> (\<exists>v. eval_bool v cnf \<and> v (Predicate a)))
            \<longrightarrow> ask_full_inference satisfiable (Predicate b) (Predicate a) cnf = Some True)
         \<and> (\<not> (\<exists>v. eval_bool v cnf \<and> v (Predicate a))
            \<longrightarrow> Predicate a \<in> entry
                \<and> ask_full_inference satisfiable (Predicate a) (Predicate a) cnf = Some False)
         \<and> NotN (Predicate b) \<notin> entry"
proof -
  from assms have mem: "a \<in> set keys"
    by (simp add: single_fact_lookup_entry split: if_splits)
  with assms have entry: "entry = {Predicate a} \<union>
      {Predicate k' | k'. k' \<in> set keys \<and> k' \<noteq> a \<and>
         ask_full_inference satisfiable (Predicate k') (Predicate a) cnf = Some True}"
    by (simp add: single_fact_lookup_entry)
  have self_sat: "ask_full_inference satisfiable (Predicate a) (Predicate a) cnf = Some True"
    if "\<exists>v. eval_bool v cnf \<and> v (Predicate a)"
    using that by (simp add: ask_full_inference_sem)
  have self_unsat: "ask_full_inference satisfiable (Predicate a) (Predicate a) cnf = Some False"
    if "\<not> (\<exists>v. eval_bool v cnf \<and> v (Predicate a))"
    using that by (simp add: ask_full_inference_sem)
  show ?thesis
    using self_sat self_unsat by (auto simp: entry)
qed

lemma closure_even_integer:
  "single_fact_lookup satisfiable [''even'', ''integer'']
     (OrN [NotN (Predicate ''even''), Predicate ''integer'']) (Predicate ''even'')
   = Some {Predicate ''even'', Predicate ''integer''}"
  by code_simp

theorem closure_map_sound_witness:
  "single_fact_lookup satisfiable [''even'', ''integer'']
     (OrN [NotN (Predicate ''even''), Predicate ''integer'']) (Predicate ''even'')
   = Some {Predicate ''even'', Predicate ''integer''}
   \<and> Predicate ''integer'' \<in> {Predicate ''even'', Predicate ''integer''}
   \<and> ask_full_inference satisfiable (Predicate ''integer'') (Predicate ''even'')
        (OrN [NotN (Predicate ''even''), Predicate ''integer'']) = Some True
   \<and> NotN (Predicate ''integer'') \<notin> {Predicate ''even'', Predicate ''integer''}"
  using closure_map_sound [OF closure_even_integer, of "''integer''"] closure_even_integer
  by simp

text \<open>
  The claim as stated fails for a key that the axioms refute: with the clauses
  \<open>\<not>a \<or> b\<close> and \<open>\<not>a \<or> \<not>b\<close> the key \<open>a\<close> is in its own entry, and full inference of
  \<open>a\<close> from \<open>a\<close> returns False.
\<close>

theorem closure_map_sound_counterexample:
  "single_fact_lookup satisfiable [''a'', ''b'']
     (AndN [OrN [NotN (Predicate ''a''), Predicate ''b''],
            OrN [NotN (Predicate ''a''), NotN (Predicate ''b'')]]) (Predicate ''a'')
   = Some {Predicate ''a''}
   \<and> ask_full_inference satisfiable (Predicate ''a'') (Predicate ''a'')
        (AndN [OrN [NotN (Predicate ''a''), Predicate ''b''],
               OrN [NotN (Predicate ''a''), NotN (Predicate ''b'')]]) = Some False"
  by code_simp

text \<open>
  C6 (as amended). The closure map records positive entailments only: the entry of a
  key \<open>k\<close> holds \<open>k\<close> itself and exactly those other keys for which full inference
  from \<open>k\<close> returns True. A pair for which it returns False adds nothing, and no
  negated key is a member of any entry.
\<close>

theorem closure_map_positive_only:
  assumes "k \<in> set keys"
  shows "\<exists>entry. single_fact_lookup sat keys cnf (Predicate k) = Some entry
           \<and> (\<forall>x. x \<in> entry \<longleftrightarrow>
                 (x = Predicate k \<or>
                  (\<exists>k'. x = Predicate k' \<and> k' \<in> set keys \<and>
                     ask_full_inference sat (Predicate k') (Predicate k) cnf = Some True)))
           \<and> (\<forall>k'. NotN (Predicate k') \<notin> entry)"
  using assms by (auto simp: single_fact_lookup_entry)

theorem closure_map_positive_only_witness:
  "''a'' \<in> set [''a'', ''b'']
   \<and> (\<exists>entry. single_fact_lookup satisfiable [''a'', ''b'']
                 (OrN [NotN (Predicate ''a''), NotN (Predicate ''b'')]) (Predicate ''a'')
               = Some entry
           \<and> (\<forall>x. x \<in> entry \<longleftrightarrow>
                 (x = Predicate ''a'' \<or>
                  (\<exists>k'. x = Predicate k' \<and> k' \<in> set [''a'', ''b''] \<and>
                     ask_full_inference satisfiable (Predicate k') (Predicate ''a'')
                       (OrN [NotN (Predicate ''a''), NotN (Predicate ''b'')]) = Some True)))
           \<and> (\<forall>k'. NotN (Predicate k') \<notin> entry))"
proof -
  have mem: "''a'' \<in> set [''a'', ''b'']" by simp
  show ?thesis
    by (rule conjI [OF mem closure_map_positive_only [OF mem]])
qed

text \<open>
  The claim as stated fails: with the clause \<open>\<not>a \<or> \<not>b\<close>, full inference of \<open>b\<close>
  from \<open>a\<close> returns False, and the entry of \<open>a\<close> holds \<open>a\<close> alone.
\<close>

theorem closure_map_negated_counterexample:
  "ask_full_inference satisfiable (Predicate ''b'') (Predicate ''a'')
     (OrN [NotN (Predicate ''a''), NotN (Predicate ''b'')]) = Some False
   \<and> single_fact_lookup satisfiable [''a'', ''b'']
       (OrN [NotN (Predicate ''a''), NotN (Predicate ''b'')]) (Predicate ''a'')
     = Some {Predicate ''a''}
   \<and> NotN (Predicate ''b'') \<notin> {Predicate ''a''}"
  by code_simp

subsection \<open>The tiers of the resolver\<close>

lemma extract_facts_not_True:
  "extract_facts e s = Inr r \<Longrightarrow> e \<noteq> BTrue \<and> e \<noteq> BFalse"
  by (cases e) simp_all

lemma ask_after_extract:
  assumes "key_expr proposition = (key, expr)"
    and "eval_ask key expr (And [assumptions, And context]) = Inr None"
    and "extract_facts (And [assumptions, And context]) expr = Inr (Some local_facts)"
    and "local_facts \<noteq> BTrue"
  shows "ask sat eval_ask d cnf context proposition assumptions =
           (case ask_lookup d (Predicate key) local_facts of
              Inl e \<Rightarrow> Inl e
            | Inr (Some res) \<Rightarrow> Inr (Some res)
            | Inr None \<Rightarrow> Inr (ask_full_inference sat (Predicate key) local_facts cnf))"
proof -
  have "And [assumptions, And context] \<noteq> BTrue"
    using assms(3) extract_facts_not_True by blast
  then show ?thesis
    by (simp add: ask_def Let_def assms)
qed

text \<open>
  C3. When the handlers of the key answer True or False for the target under the
  combined assumptions, \<open>ask\<close> returns that answer, whatever the closure map, the
  CNF and the satisfiability check are: none of them is consulted.
\<close>

theorem ask_direct_evaluation:
  assumes "key_expr proposition = (key, expr)"
    and "eval_ask key expr (And [assumptions, And context]) = Inr (Some res)"
  shows "\<forall>sat known_facts_dict known_facts_cnf.
           ask sat eval_ask known_facts_dict known_facts_cnf context proposition assumptions
             = Inr (Some res)"
  by (simp add: ask_def Let_def assms)

theorem ask_direct_evaluation_witness:
  "key_expr (AppliedPredicate ''rational'' (Symbol ''pi'')) = (''rational'', Obj (Symbol ''pi''))
   \<and> irrational_pi ''rational'' (Obj (Symbol ''pi'')) (And [BTrue, And []]) = Inr (Some False)
   \<and> (\<forall>sat known_facts_dict known_facts_cnf.
         ask sat irrational_pi known_facts_dict known_facts_cnf []
           (AppliedPredicate ''rational'' (Symbol ''pi'')) BTrue = Inr (Some False))"
proof -
  have k: "key_expr (AppliedPredicate ''rational'' (Symbol ''pi''))
             = (''rational'', Obj (Symbol ''pi''))"
    by (simp add: key_expr_def)
  have h: "irrational_pi ''rational'' (Obj (Symbol ''pi'')) (And [BTrue, And []])
             = Inr (Some False)"
    by (simp add: irrational_pi_def)
  show ?thesis
    by (intro conjI k h ask_direct_evaluation [where eval_ask = irrational_pi, OF k h])
qed

text \<open>
  The single-key branch where the key has an entry in the closure map: True if the
  queried key is in the entry, else False if its negation is, else the result of
  full inference. Where the key has no entry, the lookup raises.
\<close>

lemma ask_single_key_entry:
  assumes "key_expr proposition = (key, expr)"
    and "eval_ask key expr (And [assumptions, And context]) = Inr None"
    and "extract_facts (And [assumptions, And context]) expr = Inr (Some (Predicate a))"
    and "known_facts_dict (Predicate a) = Some entry"
  shows "ask sat eval_ask known_facts_dict known_facts_cnf context proposition assumptions =
           Inr (if Predicate key \<in> entry then Some True
                else if NotN (Predicate key) \<in> entry then Some False
                else ask_full_inference sat (Predicate key) (Predicate a) known_facts_cnf)"
  by (simp add: ask_after_extract [where eval_ask = eval_ask, OF assms(1-3)] ask_lookup_def assms(4))

lemma ask_single_key_missing:
  assumes "key_expr proposition = (key, expr)"
    and "eval_ask key expr (And [assumptions, And context]) = Inr None"
    and "extract_facts (And [assumptions, And context]) expr = Inr (Some (Predicate a))"
    and "known_facts_dict (Predicate a) = None"
  shows "ask sat eval_ask known_facts_dict known_facts_cnf context proposition assumptions
           = Inl KeyError"
  by (simp add: ask_after_extract [where eval_ask = eval_ask, OF assms(1-3)] ask_lookup_def assms(4))

lemma ask_single_key_sample:
  "ask satisfiable no_opinion sample_dict sample_cnf []
     (AppliedPredicate ''rational'' (Symbol ''x''))
     (AppliedPredicate ''integer'' (Symbol ''x'')) = Inr (Some True)"
  by code_simp

text \<open>
  C4. For a single extracted key the claim has \<open>ask\<close> answer from the entry of that
  key or else fall through to the remaining tiers. With the sample knowledge base
  and the query \<^verbatim>\<open>Q.integer(x)\<close> under the assumption \<^verbatim>\<open>Q.mersenne(x)\<close>, the handlers
  have no opinion, the extracted facts are the single key \<^verbatim>\<open>Q.mersenne\<close>, the
  closure map has no entry for it, and \<open>ask\<close> does not fall through: it raises.
\<close>

theorem ask_single_key_no_entry:
  "no_opinion ''integer'' (Obj (Symbol ''x''))
     (And [AppliedPredicate ''mersenne'' (Symbol ''x''), And []]) = Inr None
   \<and> extract_facts (And [AppliedPredicate ''mersenne'' (Symbol ''x''), And []])
       (Obj (Symbol ''x'')) = Inr (Some (Predicate ''mersenne''))
   \<and> sample_dict (Predicate ''mersenne'') = None
   \<and> ask satisfiable no_opinion sample_dict sample_cnf []
       (AppliedPredicate ''integer'' (Symbol ''x''))
       (AppliedPredicate ''mersenne'' (Symbol ''x'')) = Inl KeyError"
  by code_simp

text \<open>
  C9. A predicate registered after the knowledge base was compiled has no entry in
  the closure map. With the sample knowledge base and the assumption
  \<^verbatim>\<open>Q.mersenne(x)\<close>, the query \<^verbatim>\<open>Q.rational(x)\<close> does not go on to full inference
  and does not return Unknown: the lookup of the missing entry raises.
\<close>

theorem ask_unregistered_key_raises:
  "ask satisfiable no_opinion sample_dict sample_cnf []
     (AppliedPredicate ''rational'' (Symbol ''x''))
     (AppliedPredicate ''mersenne'' (Symbol ''x'')) = Inl KeyError"
  by code_simp

subsection \<open>Conjunctions of keys\<close>

lemma ask_conjuncts_literals:
  assumes "\<forall>c\<in>set conjuncts. d c \<noteq> None \<and>
             (is_Atom c = Inr True \<or> (\<exists>a. c = NotN a \<and> is_Atom a = Inr True))"
  shows "ask_conjuncts d key conjuncts =
           Inr (case List.find (\<lambda>c. key \<in> entry_of d c \<or> Not_b key \<in> entry_of d c) conjuncts of
                  Some c \<Rightarrow> Some (case c of NotN a \<Rightarrow> key \<notin> entry_of d c
                                      | _ \<Rightarrow> key \<in> entry_of d c)
                | None \<Rightarrow> None)"
  using assms
proof (induction conjuncts)
  case Nil
  then show ?case by simp
next
  case (Cons c cs)
  then have IH: "ask_conjuncts d key cs =
           Inr (case List.find (\<lambda>c. key \<in> entry_of d c \<or> Not_b key \<in> entry_of d c) cs of
                  Some c \<Rightarrow> Some (case c of NotN a \<Rightarrow> key \<notin> entry_of d c
                                      | _ \<Rightarrow> key \<in> entry_of d c)
                | None \<Rightarrow> None)"
    by simp
  from Cons.prems obtain entry where entry: "d c = Some entry" by auto
  from Cons.prems consider (atom) "is_Atom c = Inr True"
    | (neg) a where "c = NotN a" "is_Atom a = Inr True" by auto
  then show ?case
  proof cases
    case atom
    then have "\<And>a. c \<noteq> NotN a" by auto
    with atom entry IH show ?thesis
      by (cases c) (simp_all add: entry_of_def)
  next
    case neg
    with entry IH show ?thesis
      by (simp add: entry_of_def)
  qed
qed

lemma ask_lookup_conjunction:
  "ask_lookup d key (AndN conjuncts) =
     (if list_all (\<lambda>k. d k \<noteq> None) conjuncts then ask_conjuncts d key conjuncts else Inr None)"
  by (simp add: ask_lookup_def)

lemma foldl_upd_other:
  "x \<notin> g ` set ks \<Longrightarrow> foldl (\<lambda>mapping key. mapping(g key \<mapsto> h key)) m ks x = m x"
  by (induction ks arbitrary: m) auto

lemma single_fact_lookup_negated: "single_fact_lookup sat keys cnf (NotN a) = None"
proof -
  have "NotN a \<notin> Predicate ` set keys" by auto
  then show ?thesis
    unfolding single_fact_lookup_def by (simp add: foldl_upd_other)
qed

text \<open>
  C5 (as amended). When the handlers have no opinion and the extracted facts are a
  conjunction, the closure-map tier runs only if every conjunct is itself a key of
  the closure map. Then \<open>ask\<close> goes through the conjuncts in order and answers at
  the first one whose own entry holds the queried key or its negation. For an
  atomic conjunct \<open>a\<close> the answer is True if the key is in the entry of \<open>a\<close>, else
  False. For a negated conjunct \<open>\<not>a\<close> the entry consulted is that of \<open>\<not>a\<close> itself,
  not that of \<open>a\<close>, with the roles swapped: False if the key is in the entry of
  \<open>\<not>a\<close>, else True. Without such a conjunct \<open>ask\<close> returns the result of full
  inference. If some conjunct is not a key of the closure map, \<open>ask\<close> returns the
  result of full inference without looking anything up; this is so for every
  conjunction with a negated conjunct when the map is one that the compiler built,
  since such a map has no negated key.
\<close>

theorem ask_conjunction:
  assumes "key_expr proposition = (key, expr)"
    and "eval_ask key expr (And [assumptions, And context]) = Inr None"
    and "extract_facts (And [assumptions, And context]) expr = Inr (Some (AndN conjuncts))"
  shows "((\<forall>c\<in>set conjuncts. known_facts_dict c \<noteq> None \<and>
             (is_Atom c = Inr True \<or> (\<exists>a. c = NotN a \<and> is_Atom a = Inr True))) \<longrightarrow>
            ask sat eval_ask known_facts_dict known_facts_cnf context proposition assumptions =
              Inr (case List.find
                          (\<lambda>c. Predicate key \<in> entry_of known_facts_dict c
                             \<or> NotN (Predicate key) \<in> entry_of known_facts_dict c) conjuncts of
                     Some c \<Rightarrow>
                       Some (case c of
                               NotN a \<Rightarrow> Predicate key \<notin> entry_of known_facts_dict c
                             | _ \<Rightarrow> Predicate key \<in> entry_of known_facts_dict c)
                   | None \<Rightarrow> ask_full_inference sat (Predicate key) (AndN conjuncts)
                               known_facts_cnf))
         \<and> ((\<exists>c\<in>set conjuncts. known_facts_dict c = None) \<longrightarrow>
              ask sat eval_ask known_facts_dict known_facts_cnf context proposition assumptions =
                Inr (ask_full_inference sat (Predicate key) (AndN conjuncts) known_facts_cnf))
         \<and> ((\<exists>a. NotN a \<in> set conjuncts) \<longrightarrow>
              ask sat eval_ask (single_fact_lookup sat' keys cnf') known_facts_cnf context
                  proposition assumptions =
                Inr (ask_full_inference sat (Predicate key) (AndN conjuncts) known_facts_cnf))"
proof -
  note tiers = ask_after_extract [where eval_ask = eval_ask, OF assms(1-3)]
  have skipped: "ask sat eval_ask d known_facts_cnf context proposition assumptions =
      Inr (ask_full_inference sat (Predicate key) (AndN conjuncts) known_facts_cnf)"
    if "\<exists>c\<in>set conjuncts. d c = None" for d
  proof -
    from that have "\<not> list_all (\<lambda>k. d k \<noteq> None) conjuncts"
      by (simp add: list_all_iff)
    then show ?thesis
      by (simp add: tiers ask_lookup_conjunction)
  qed
  have scanned: "ask sat eval_ask known_facts_dict known_facts_cnf context proposition assumptions =
      Inr (case List.find
                  (\<lambda>c. Predicate key \<in> entry_of known_facts_dict c
                     \<or> NotN (Predicate key) \<in> entry_of known_facts_dict c) conjuncts of
             Some c \<Rightarrow>
               Some (case c of
                       NotN a \<Rightarrow> Predicate key \<notin> entry_of known_facts_dict c
                     | _ \<Rightarrow> Predicate key \<in> entry_of known_facts_dict c)
           | None \<Rightarrow> ask_full_inference sat (Predicate key) (AndN conjuncts) known_facts_cnf)"
    if all: "\<forall>c\<in>set conjuncts. known_facts_dict c \<noteq> None \<and>
             (is_Atom c = Inr True \<or> (\<exists>a. c = NotN a \<and> is_Atom a = Inr True))"
  proof -
    from all have "list_all (\<lambda>k. known_facts_dict k \<noteq> None) conjuncts"
      by (simp add: list_all_iff)
    then show ?thesis
      by (simp add: tiers ask_lookup_conjunction ask_conjuncts_literals [OF all]
            split: option.split)
  qed
  have compiled: "ask sat eval_ask (single_fact_lookup sat' keys cnf') known_facts_cnf context
        proposition assumptions =
      Inr (ask_full_inference sat (Predicate key) (AndN conjuncts) known_facts_cnf)"
    if "\<exists>a. NotN a \<in> set conjuncts"
  proof -
    from that have "\<exists>c\<in>set conjuncts. single_fact_lookup sat' keys cnf' c = None"
      using single_fact_lookup_negated by blast
    then show ?thesis by (rule skipped)
  qed
  from scanned skipped compiled show ?thesis by blast
qed

text \<open>
  An instance with a negated conjunct that is a key: the query \<^verbatim>\<open>Q.integer(x)\<close> under
  \<^verbatim>\<open>~Q.rational(x) & Q.real(x)\<close>, with a closure map whose entry of "not rational"
  holds "not integer". The entry of the negated conjunct holds the negation of the
  key, so the answer is True.
\<close>

lemma sample_conjunction_hyps:
  "key_expr (AppliedPredicate ''integer'' (Symbol ''x'')) = (''integer'', Obj (Symbol ''x''))"
  "no_opinion ''integer'' (Obj (Symbol ''x''))
     (And [AndN [NotN (AppliedPredicate ''rational'' (Symbol ''x'')),
                 AppliedPredicate ''real'' (Symbol ''x'')], And []]) = Inr None"
  "extract_facts (And [AndN [NotN (AppliedPredicate ''rational'' (Symbol ''x'')),
                             AppliedPredicate ''real'' (Symbol ''x'')], And []])
     (Obj (Symbol ''x'')) = Inr (Some (AndN [NotN (Predicate ''rational''), Predicate ''real'']))"
  by code_simp+

lemma sample_conjunction_keys:
  "sample_literal_dict (NotN (Predicate ''rational'')) \<noteq> None"
  "is_Atom (Predicate ''rational'') = Inr True"
  "sample_literal_dict (Predicate ''real'') \<noteq> None"
  "is_Atom (Predicate ''real'') = Inr True"
  by (simp_all add: sample_literal_dict_def)

lemma sample_conjunction_find:
  "Inr (case List.find
              (\<lambda>c. Predicate ''integer'' \<in> entry_of sample_literal_dict c
                 \<or> NotN (Predicate ''integer'') \<in> entry_of sample_literal_dict c)
              [NotN (Predicate ''rational''), Predicate ''real''] of
          Some c \<Rightarrow>
            Some (case c of
                    NotN a \<Rightarrow> Predicate ''integer'' \<notin> entry_of sample_literal_dict c
                  | _ \<Rightarrow> Predicate ''integer'' \<in> entry_of sample_literal_dict c)
        | None \<Rightarrow> ask_full_inference satisfiable (Predicate ''integer'')
                    (AndN [NotN (Predicate ''rational''), Predicate ''real'']) sample_cnf)
   = (Inr (Some True) :: error + bool option)"
  by (simp add: sample_literal_dict_def entry_of_def)

theorem ask_conjunction_witness:
  "key_expr (AppliedPredicate ''integer'' (Symbol ''x'')) = (''integer'', Obj (Symbol ''x''))
   \<and> no_opinion ''integer'' (Obj (Symbol ''x''))
       (And [AndN [NotN (AppliedPredicate ''rational'' (Symbol ''x'')),
                   AppliedPredicate ''real'' (Symbol ''x'')], And []]) = Inr None
   \<and> extract_facts (And [AndN [NotN (AppliedPredicate ''rational'' (Symbol ''x'')),
                               AppliedPredicate ''real'' (Symbol ''x'')], And []])
       (Obj (Symbol ''x'')) = Inr (Some (AndN [NotN (Predicate ''rational''), Predicate ''real'']))
   \<and> sample_literal_dict (NotN (Predicate ''rational'')) \<noteq> None
   \<and> is_Atom (Predicate ''rational'') = Inr True
   \<and> sample_literal_dict (Predicate ''real'') \<noteq> None
   \<and> is_Atom (Predicate ''real'') = Inr True
   \<and> ask satisfiable no_opinion sample_literal_dict sample_cnf []
       (AppliedPredicate ''integer'' (Symbol ''x''))
       (AndN [NotN (AppliedPredicate ''rational'' (Symbol ''x'')),
              AppliedPredicate ''real'' (Symbol ''x'')]) = Inr (Some True)
   \<and> ask satisfiable no_opinion sample_dict sample_cnf []
       (AppliedPredicate ''integer'' (Symbol ''x''))
       (AndN [NotN (AppliedPredicate ''rational'' (Symbol ''x'')),
              AppliedPredicate ''real'' (Symbol ''x'')])
     = Inr (ask_full_inference satisfiable (Predicate ''integer'')
              (AndN [NotN (Predicate ''rational''), Predicate ''real'']) sample_cnf)"
proof -
  note inst = ask_conjunction [where eval_ask = no_opinion and sat = satisfiable
      and known_facts_cnf = sample_cnf, OF sample_conjunction_hyps]
  have keys: "\<forall>c\<in>set [NotN (Predicate ''rational''), Predicate ''real''].
      sample_literal_dict c \<noteq> None \<and>
      (is_Atom c = Inr True \<or> (\<exists>a. c = NotN a \<and> is_Atom a = Inr True))"
    using sample_conjunction_keys by simp
  from inst [where known_facts_dict = sample_literal_dict, THEN conjunct1, THEN mp, OF keys]
  have scanned: "ask satisfiable no_opinion sample_literal_dict sample_cnf []
       (AppliedPredicate ''integer'' (Symbol ''x''))
       (AndN [NotN (AppliedPredicate ''rational'' (Symbol ''x'')),
              AppliedPredicate ''real'' (Symbol ''x'')]) = Inr (Some True)"
    by (simp only: sample_conjunction_find)
  have neg: "\<exists>a. NotN a \<in> set [NotN (Predicate ''rational''), Predicate ''real'']"
    by simp
  from inst [where sat' = satisfiable and keys = sample_keys and cnf' = sample_cnf,
      THEN conjunct2, THEN conjunct2, THEN mp, OF neg]
  have compiled: "ask satisfiable no_opinion sample_dict sample_cnf []
       (AppliedPredicate ''integer'' (Symbol ''x''))
       (AndN [NotN (AppliedPredicate ''rational'' (Symbol ''x'')),
              AppliedPredicate ''real'' (Symbol ''x'')])
     = Inr (ask_full_inference satisfiable (Predicate ''integer'')
              (AndN [NotN (Predicate ''rational''), Predicate ''real'']) sample_cnf)"
    by (simp only: sample_dict_def)
  from sample_conjunction_hyps sample_conjunction_keys scanned compiled show ?thesis
    by (intro conjI)
qed

text \<open>
  The claim as stated fails for a negated conjunct. With the sample knowledge base,
  \<open>rational\<close> is in the entry of \<open>integer\<close>; the claim has the query
  \<^verbatim>\<open>Q.rational(x)\<close> under \<^verbatim>\<open>~Q.integer(x) & Q.real(x)\<close> answered False. The negated
  conjunct is no key of the closure map, so the tier is skipped and full inference
  answers Unknown.
\<close>

theorem ask_conjunction_counterexample:
  "sample_dict (Predicate ''integer'') = Some {Predicate ''integer'', Predicate ''rational''}
   \<and> Predicate ''rational'' \<in> {Predicate ''integer'', Predicate ''rational''}
   \<and> extract_facts (And [AndN [NotN (AppliedPredicate ''integer'' (Symbol ''x'')),
                               AppliedPredicate ''real'' (Symbol ''x'')], And []])
       (Obj (Symbol ''x'')) = Inr (Some (AndN [NotN (Predicate ''integer''), Predicate ''real'']))
   \<and> ask satisfiable no_opinion sample_dict sample_cnf []
       (AppliedPredicate ''rational'' (Symbol ''x''))
       (AndN [NotN (AppliedPredicate ''integer'' (Symbol ''x'')),
              AppliedPredicate ''real'' (Symbol ''x'')]) = Inr None"
  by code_simp

subsection \<open>Negated propositions\<close>

lemma extract_facts_absent:
  "\<not> has e s \<Longrightarrow> e \<noteq> BTrue \<Longrightarrow> e \<noteq> BFalse \<Longrightarrow> extract_facts e s = Inr None"
  by (cases e) simp_all

lemma ask_unknown_assumptions:
  assumes "ask sat eval_ask d cnf context (AppliedPredicate p a) assumptions = Inr None"
  shows "eval_ask p (Obj a) (And [assumptions, And context]) = Inr None
         \<and> And [assumptions, And context] \<noteq> BFalse"
proof -
  let ?A = "And [assumptions, And context]"
  from assms have ev: "eval_ask p (Obj a) ?A = Inr None"
    by (auto simp: ask_def key_expr_def Let_def split: sum.splits option.splits)
  have "?A \<noteq> BFalse"
  proof
    assume f: "?A = BFalse"
    with assms ev show False
      by (simp add: ask_def key_expr_def Let_def)
  qed
  with ev show ?thesis by simp
qed

text \<open>
  \<open>ask\<close> has no rule for negation: the negation of an applied predicate \<open>P\<close> is
  asked as the key \<^verbatim>\<open>is_true\<close> of the target \<open>\<not>P\<close>. If the handlers of \<^verbatim>\<open>is_true\<close>
  answer for \<open>\<not>P\<close> the negation of a definitive answer for \<open>P\<close> and have no opinion
  when that is Unknown, and if in the Unknown case the combined assumptions do not
  contain \<open>\<not>P\<close> as a sub-expression, the two answers are each other's negation.
\<close>

lemma ask_negation_by_handlers:
  assumes "ask sat eval_ask d cnf context (AppliedPredicate p a) assumptions = Inr r"
    and "eval_ask ''is_true'' (Prop (NotN (AppliedPredicate p a)))
           (And [assumptions, And context]) = Inr (map_option Not r)"
    and "r = None \<longrightarrow>
           \<not> has (And [assumptions, And context]) (Prop (NotN (AppliedPredicate p a)))"
  shows "ask sat eval_ask d cnf context (Not_b (AppliedPredicate p a)) assumptions
           = Inr (map_option Not r)"
proof (cases r)
  case (Some b)
  with assms(2) show ?thesis
    by (simp add: ask_def key_expr_def Let_def)
next
  case None
  let ?A = "And [assumptions, And context]"
  from assms(1) None have "?A \<noteq> BFalse"
    using ask_unknown_assumptions by blast
  moreover from assms(3) None have "\<not> has ?A (Prop (NotN (AppliedPredicate p a)))"
    by simp
  ultimately have "?A \<noteq> BTrue \<Longrightarrow>
      extract_facts ?A (Prop (NotN (AppliedPredicate p a))) = Inr None"
    by (rule extract_facts_absent [rotated 2])
  with assms(2) None show ?thesis
    by (simp add: ask_def key_expr_def Let_def)
qed

lemma negating_handlers_definitive:
  "ask satisfiable (negating_handlers satisfiable sample_dict sample_cnf []) sample_dict
     sample_cnf [] (AppliedPredicate ''rational'' (Symbol ''x''))
     (AppliedPredicate ''integer'' (Symbol ''x'')) = Inr (Some True)
   \<and> ask satisfiable (negating_handlers satisfiable sample_dict sample_cnf []) sample_dict
       sample_cnf [] (Not_b (AppliedPredicate ''rational'' (Symbol ''x'')))
       (AppliedPredicate ''integer'' (Symbol ''x'')) = Inr (Some False)"
  by code_simp

text \<open>
  C8. Negation symmetry has \<open>ask\<close> answer Unknown for \<open>\<not>P\<close> whenever it answers
  Unknown for \<open>P\<close>. With the sample knowledge base and handlers that decide a
  negation by asking for its operand, the query \<^verbatim>\<open>Q.rational(x)\<close> under the
  assumption \<^verbatim>\<open>~Q.rational(x) | Q.real(x)\<close> is answered Unknown. For the query
  \<^verbatim>\<open>~Q.rational(x)\<close> under the same assumption the handlers have no opinion either,
  the assumption contains the target \<^verbatim>\<open>~Q.rational(x)\<close>, and the extraction of
  the facts rebuilds that negation node from no operand at all: \<open>ask\<close> raises
  where symmetry has Unknown.
\<close>

theorem ask_negation_raises:
  "ask satisfiable (negating_handlers satisfiable sample_dict sample_cnf []) sample_dict
     sample_cnf [] (AppliedPredicate ''rational'' (Symbol ''x''))
     (OrN [NotN (AppliedPredicate ''rational'' (Symbol ''x'')),
           AppliedPredicate ''real'' (Symbol ''x'')]) = Inr None
   \<and> negating_handlers satisfiable sample_dict sample_cnf [] ''is_true''
       (Prop (NotN (AppliedPredicate ''rational'' (Symbol ''x''))))
       (And [OrN [NotN (AppliedPredicate ''rational'' (Symbol ''x'')),
                  AppliedPredicate ''real'' (Symbol ''x'')], And []]) = Inr None
   \<and> extract_facts (And [OrN [NotN (AppliedPredicate ''rational'' (Symbol ''x'')),
                              AppliedPredicate ''real'' (Symbol ''x'')], And []])
       (Prop (NotN (AppliedPredicate ''rational'' (Symbol ''x'')))) = Inl ArityError
   \<and> ask satisfiable (negating_handlers satisfiable sample_dict sample_cnf []) sample_dict
       sample_cnf [] (Not_b (AppliedPredicate ''rational'' (Symbol ''x'')))
       (OrN [NotN (AppliedPredicate ''rational'' (Symbol ''x'')),
             AppliedPredicate ''real'' (Symbol ''x'')]) = Inl ArityError"
  by code_simp

text \<open>The same holds with handlers that have no opinion on anything.\<close>

lemma ask_negation_in_assumptions:
  "ask satisfiable no_opinion sample_dict sample_cnf []
     (AppliedPredicate ''rational'' (Symbol ''x''))
     (OrN [NotN (AppliedPredicate ''rational'' (Symbol ''x'')),
           AppliedPredicate ''real'' (Symbol ''x'')]) = Inr None
   \<and> ask satisfiable no_opinion sample_dict sample_cnf []
       (Not_b (AppliedPredicate ''rational'' (Symbol ''x'')))
       (OrN [NotN (AppliedPredicate ''rational'' (Symbol ''x'')),
             AppliedPredicate ''real'' (Symbol ''x'')]) = Inl ArityError"
  by code_simp

subsection \<open>Compiling a contradictory axiom set\<close>

lemma single_fact_lookup_unsat:
  assumes "\<not> (\<exists>v. eval_bool v cnf)" and "k \<in> set keys"
  shows "single_fact_lookup satisfiable keys cnf (Predicate k) = Some {Predicate k}"
proof -
  have "ask_full_inference satisfiable P A cnf = Some False" for P A
    using assms(1) by (simp add: ask_full_inference_sem)
  with assms(2) show ?thesis
    by (simp add: single_fact_lookup_entry)
qed

text \<open>
  C7 (as amended). \<open>compute_known_facts\<close> makes no satisfiability check of the
  axioms and knows no condition for contradictory ones. For an unsatisfiable axiom
  set, with a CNF conversion that preserves meaning and does not collapse the
  axioms to the constant False, compilation returns normally: the operands of the
  CNF, and a closure map in which every key has the entry holding the key alone.
\<close>

theorem compute_known_facts_unsat:
  assumes "\<forall>v. eval_bool v (to_cnf known_facts) = eval_bool v known_facts"
    and "\<not> satisfiable known_facts"
    and "to_cnf known_facts \<noteq> BFalse"
  shows "\<exists>c m. compute_known_facts to_cnf satisfiable known_facts known_facts_keys = Inr (c, m)
           \<and> args (to_cnf known_facts) = Inr c
           \<and> (\<forall>k\<in>set known_facts_keys. m (Predicate k) = Some {Predicate k})"
proof -
  from assms(1,2) have unsat: "\<not> (\<exists>v. eval_bool v (to_cnf known_facts))"
    by (simp add: satisfiable_iff)
  then have "to_cnf known_facts \<noteq> BTrue"
    by auto
  with assms(3) obtain c where c: "args (to_cnf known_facts) = Inr c"
    by (cases "to_cnf known_facts") simp_all
  have "\<forall>k\<in>set known_facts_keys.
          single_fact_lookup satisfiable known_facts_keys (to_cnf known_facts) (Predicate k)
            = Some {Predicate k}"
    using unsat by (simp add: single_fact_lookup_unsat)
  with c show ?thesis
    by (simp add: compute_known_facts_def Let_def)
qed

lemma contradictory_hyps:
  "\<forall>v. eval_bool v (implications_to_clauses contradictory_axioms)
         = eval_bool v contradictory_axioms"
  "\<not> satisfiable contradictory_axioms"
  "implications_to_clauses contradictory_axioms \<noteq> BFalse"
proof -
  show "\<forall>v. eval_bool v (implications_to_clauses contradictory_axioms)
         = eval_bool v contradictory_axioms"
    by (simp add: implications_to_clauses_def contradictory_axioms_def)
  show "\<not> satisfiable contradictory_axioms"
    by code_simp
  show "implications_to_clauses contradictory_axioms \<noteq> BFalse"
    by code_simp
qed

theorem compute_known_facts_unsat_witness:
  "(\<forall>v. eval_bool v (implications_to_clauses contradictory_axioms)
         = eval_bool v contradictory_axioms)
   \<and> \<not> satisfiable contradictory_axioms
   \<and> implications_to_clauses contradictory_axioms \<noteq> BFalse
   \<and> (\<exists>c m. compute_known_facts implications_to_clauses satisfiable contradictory_axioms
               [''a'', ''b''] = Inr (c, m)
           \<and> args (implications_to_clauses contradictory_axioms) = Inr c
           \<and> (\<forall>k\<in>set [''a'', ''b'']. m (Predicate k) = Some {Predicate k}))"
  by (intro conjI contradictory_hyps
        compute_known_facts_unsat [where to_cnf = implications_to_clauses,
          OF contradictory_hyps])

text \<open>
  The claim as stated fails: for the contradictory axioms "a implies b", "a implies
  not b" and "a", compilation raises nothing and returns the clauses together with
  a closure map.
\<close>

theorem compute_known_facts_counterexample:
  "\<not> satisfiable contradictory_axioms
   \<and> \<not> isl (compute_known_facts implications_to_clauses satisfiable contradictory_axioms
              [''a'', ''b''])
   \<and> fst (projr (compute_known_facts implications_to_clauses satisfiable contradictory_axioms
                   [''a'', ''b'']))
       = [Prop (OrN [NotN (Predicate ''a''), Predicate ''b'']),
          Prop (OrN [NotN (Predicate ''a''), NotN (Predicate ''b'')]),
          Prop (Predicate ''a'')]
   \<and> snd (projr (compute_known_facts implications_to_clauses satisfiable contradictory_axioms
                   [''a'', ''b''])) (Predicate ''a'') = Some {Predicate ''a''}
   \<and> snd (projr (compute_known_facts implications_to_clauses satisfiable contradictory_axioms
                   [''a'', ''b''])) (Predicate ''b'') = Some {Predicate ''b''}"
  by code_simp

subsection \<open>Rewrite rules\<close>

lemma rewrite_rl_map:
  "rewrite_rl subs is_Expr rebuild p2 matches =
     map (\<lambda>match. if is_Expr (subs match p2) then rebuild (subs match p2) else subs match p2)
       matches"
  by (induction matches) (simp_all add: Let_def)

text \<open>
  C10. The rule built from \<open>p1\<close> and \<open>p2\<close>, applied to an expression, yields one
  expression for each match that unification of \<open>p1\<close> with the expression
  generates, in the same order: the substitution of the match applied to \<open>p2\<close>,
  rebuilt when the result is an \<^verbatim>\<open>Expr\<close>. It yields nothing when there is no match.
\<close>

theorem rewriterule_yields:
  "rewriterule unify subs is_Expr rebuild p1 p2 expr =
     map (\<lambda>match. if is_Expr (subs match p2) then rebuild (subs match p2) else subs match p2)
       (unify p1 expr Map.empty)
   \<and> length (rewriterule unify subs is_Expr rebuild p1 p2 expr)
       = length (unify p1 expr Map.empty)
   \<and> (unify p1 expr Map.empty = [] \<longrightarrow> rewriterule unify subs is_Expr rebuild p1 p2 expr = [])"
  by (simp add: rewriterule_def rewrite_rl_map)

lemma sample_no_match: "sample_unify (Integer 1) (Integer 2) Map.empty = []"
  by (simp add: sample_unify_def)

theorem rewriterule_yields_witness:
  "sample_unify (Integer 1) (Integer 2) Map.empty = []
   \<and> rewriterule sample_unify sample_subs sample_is_Expr sample_rebuild
       (Integer 1) (Symbol ''y'') (Integer 2) = []
   \<and> rewriterule sample_unify sample_subs sample_is_Expr sample_rebuild
       (Symbol ''a'') (Symbol ''a'') (Integer 3)
     = map (\<lambda>match. if sample_is_Expr (sample_subs match (Symbol ''a''))
                     then sample_rebuild (sample_subs match (Symbol ''a''))
                     else sample_subs match (Symbol ''a''))
         (sample_unify (Symbol ''a'') (Integer 3) Map.empty)"
  by (intro conjI sample_no_match
        rewriterule_yields [where unify = sample_unify, THEN conjunct2, THEN conjunct2, THEN mp,
          OF sample_no_match]
        rewriterule_yields [where unify = sample_unify, THEN conjunct1])

end
